theory Spec2Isabelle
  imports Complex_Main
begin

section \<open>Vault Shop: the view functions of \<^verbatim>\<open>src/WEB/app.py\<close>\<close>

text \<open>
  The application is a Flask program over two PostgreSQL tables (\<^verbatim>\<open>products\<close>,
  \<^verbatim>\<open>orders\<close>), a Telegram bot and the NOWPayments invoice service. This theory
  embeds the view functions and helpers that the specification's testable properties are
  about: \<^verbatim>\<open>generate_order_id\<close>, \<^verbatim>\<open>validate_ipn\<close>, \<^verbatim>\<open>ipn\<close>,
  \<^verbatim>\<open>cancel_order\<close>, \<^verbatim>\<open>create_order\<close> (with \<^verbatim>\<open>create_invoice\<close>),
  \<^verbatim>\<open>submit_delivery\<close> and \<^verbatim>\<open>add_product\<close> (with \<^verbatim>\<open>ProductForm\<close>).

  \<^item> The tables are lists of rows; a statement \<^verbatim>\<open>UPDATE ... WHERE\<close> maps over the
    rows, an \<^verbatim>\<open>INSERT\<close> appends one, \<^verbatim>\<open>fetchone\<close> is the first selected row.
  \<^item> A Python exception is a value of type \<open>error\<close>. A view function whose body is
    wrapped in \<^verbatim>\<open>try ... except Exception\<close> returns a \<open>response\<close>, the handler's
    answer being one of its branches; \<^verbatim>\<open>ipn\<close> has no such wrapper and returns
    \<open>error + response\<close>, where \<open>Inl e\<close> means that \<open>e\<close> leaves the view function
    uncaught (Flask then answers 500, or the exception's own code for an HTTP exception).
  \<^item> Everything outside the file is a parameter, collected in the record \<open>env\<close>: the
    configured secret, the digest function, the outcome of the HTTP call to the invoice
    service, whether a Telegram send returns, whether the storage answers, and how the
    driver reads a JSON value as a key in a \<^verbatim>\<open>WHERE\<close> clause.
  \<^item> The middleware the file installs around the view functions (rate limiter, cache,
    CSRF protection of non-form routes) is not part of the embedding; the specification
    places it out of scope.
\<close>

subsection \<open>Python values and exceptions\<close>

datatype error =
    TypeError | KeyError | AttributeError
  | BadRequest | DbError | RequestError | TelegramError

text \<open>
  What \<^verbatim>\<open>request.get_json()\<close> and \<^verbatim>\<open>response.json()\<close> return. \<open>JNull\<close> is
  Python's \<^verbatim>\<open>None\<close>; an object is the list of the items of the parsed
  \<^verbatim>\<open>dict\<close>, whose keys are distinct.
\<close>

datatype json =
    JNull | JBool bool | JNum real | JStr string
  | JArr "json list" | JObj "(string \<times> json) list"

text \<open>\<^verbatim>\<open>bool(v)\<close>, as \<^verbatim>\<open>not v\<close> and \<^verbatim>\<open>if v\<close> use it.\<close>

fun truthy :: "json \<Rightarrow> bool" where
  "truthy JNull = False"
| "truthy (JBool b) = b"
| "truthy (JNum x) = (x \<noteq> 0)"
| "truthy (JStr s) = (s \<noteq> [])"
| "truthy (JArr xs) = (xs \<noteq> [])"
| "truthy (JObj kvs) = (kvs \<noteq> [])"

fun starts_with :: "string \<Rightarrow> string \<Rightarrow> bool" where
  "starts_with s [] = True"
| "starts_with [] (k # ks) = False"
| "starts_with (c # cs) (k # ks) = (c = k \<and> starts_with cs ks)"

fun contains_str :: "string \<Rightarrow> string \<Rightarrow> bool" where
  "contains_str [] k = (k = [])"
| "contains_str (c # cs) k = (starts_with (c # cs) k \<or> contains_str cs k)"

text \<open>
  \<^verbatim>\<open>k in v\<close> for a string \<open>k\<close>: key membership for a dict, element membership
  for a list, substring for a string; any other value is not iterable.
\<close>

fun py_in :: "string \<Rightarrow> json \<Rightarrow> error + bool" where
  "py_in k (JObj kvs) = Inr (map_of kvs k \<noteq> None)"
| "py_in k (JArr xs) = Inr (JStr k \<in> set xs)"
| "py_in k (JStr s) = Inr (contains_str s k)"
| "py_in k JNull = Inl TypeError"
| "py_in k (JBool b) = Inl TypeError"
| "py_in k (JNum x) = Inl TypeError"

text \<open>\<^verbatim>\<open>v[k]\<close> for a string \<open>k\<close>: only a dict can be indexed by a string.\<close>

fun py_getitem :: "json \<Rightarrow> string \<Rightarrow> error + json" where
  "py_getitem (JObj kvs) k = (case map_of kvs k of None \<Rightarrow> Inl KeyError | Some v \<Rightarrow> Inr v)"
| "py_getitem JNull k = Inl TypeError"
| "py_getitem (JBool b) k = Inl TypeError"
| "py_getitem (JNum x) k = Inl TypeError"
| "py_getitem (JStr s) k = Inl TypeError"
| "py_getitem (JArr xs) k = Inl TypeError"

text \<open>\<^verbatim>\<open>v.get(k)\<close>: only a dict has the method.\<close>

fun py_get :: "json \<Rightarrow> string \<Rightarrow> error + json" where
  "py_get (JObj kvs) k = Inr (case map_of kvs k of None \<Rightarrow> JNull | Some v \<Rightarrow> v)"
| "py_get JNull k = Inl AttributeError"
| "py_get (JBool b) k = Inl AttributeError"
| "py_get (JNum x) k = Inl AttributeError"
| "py_get (JStr s) k = Inl AttributeError"
| "py_get (JArr xs) k = Inl AttributeError"

subsection \<open>Storage, messages, responses, environment\<close>

type_synonym timestamp = nat

text \<open>
  The rows of the two tables. The column \<^verbatim>\<open>id\<close> of \<^verbatim>\<open>products\<close> is the field
  \<open>id_col\<close>. The routes address products by integers (\<^verbatim>\<open><int:product_id>\<close>,
  \<^verbatim>\<open>buy_\d+\<close>); a timestamp is a number of clock ticks.
\<close>

record product =
  id_col :: int
  name :: string
  price :: real
  description :: string
  image_url :: "string option"

record order =
  product_id :: int
  total_amount :: real
  user_identifier :: "string option"
  order_id :: string
  payment_id :: string
  order_status :: string
  created_at :: timestamp
  paid_at :: "timestamp option"

text \<open>
  An f-string is kept as its fragments: the literal pieces and the values interpolated
  between them.
\<close>

datatype frag = Lit string | Val json

text \<open>
  One call of \<^verbatim>\<open>bot.send_message\<close>: the chat, the text, and the inline keyboard as
  (label, callback data) pairs.
\<close>

record tg_message =
  chat_id :: "string option"
  msg_text :: "frag list"
  keyboard :: "(string \<times> frag list) list"

text \<open>
  The state the view functions read and write: the two tables, the calls of
  \<^verbatim>\<open>bot.send_message\<close> made so far, and the messages flashed to the session.
\<close>

record world =
  products :: "product list"
  orders :: "order list"
  sent :: "tg_message list"
  flashed :: "string list"

datatype body = Text string | Json json | Html string | Redirect string

type_synonym response = "nat \<times> body"

text \<open>
  How the driver and PostgreSQL read a query parameter that is compared with a key
  column: the statement fails, the comparison holds for no row, or it holds exactly for
  the rows with the given key.
\<close>

datatype 'k sql_arg = SqlError | SqlNoMatch | SqlKey 'k

record env =
  NOWPAYMENTS_IPN_SECRET :: "string option"
  ADMIN_CHAT_ID :: "string option"
  hmac_sha512_hex :: "string \<Rightarrow> string \<Rightarrow> string"
  invoice_post :: "real \<Rightarrow> string \<Rightarrow> string \<Rightarrow> error + json"
  telegram_send :: "tg_message \<Rightarrow> bool"
  db_ok :: bool
  adapt_product_id :: "json \<Rightarrow> int sql_arg"
  adapt_order_id :: "json \<Rightarrow> string sql_arg"

text \<open>\<^verbatim>\<open>jsonify({'error': msg})\<close> and \<^verbatim>\<open>jsonify({'success': True})\<close>.\<close>

definition json_error :: "string \<Rightarrow> body" where
  "json_error msg = Json (JObj [(''error'', JStr msg)])"

definition json_success :: body where
  "json_success = Json (JObj [(''success'', JBool True)])"

subsection \<open>\<^verbatim>\<open>cancel_order\<close>\<close>

text \<open>
  \<^verbatim>\<open>UPDATE orders SET order_status = 'cancelled' WHERE order_id = %s AND
  order_status = 'pending'\<close>; \<^verbatim>\<open>cur.rowcount\<close> is the number of rows the
  \<^verbatim>\<open>WHERE\<close> clause selects.
\<close>

definition cancellable :: "string \<Rightarrow> order \<Rightarrow> bool" where
  "cancellable oid r = (order_id r = oid \<and> order_status r = ''pending'')"

definition update_cancelled :: "string \<Rightarrow> order list \<Rightarrow> order list" where
  "update_cancelled oid rs =
     map (\<lambda>r. if cancellable oid r then r\<lparr>order_status := ''cancelled''\<rparr> else r) rs"

definition rowcount_cancelled :: "string \<Rightarrow> order list \<Rightarrow> nat" where
  "rowcount_cancelled oid rs = length (filter (cancellable oid) rs)"

text \<open>
  The order identifier is the path segment of the URL. A storage failure is caught by
  the \<^verbatim>\<open>except Exception\<close> of the view function.
\<close>

definition cancel_order :: "env \<Rightarrow> string \<Rightarrow> world \<Rightarrow> response \<times> world" where
  "cancel_order e oid w =
     (if \<not> db_ok e then ((500, json_error ''Internal server error''), w)
      else if rowcount_cancelled oid (orders w) > 0
        then ((200, json_success), w\<lparr>orders := update_cancelled oid (orders w)\<rparr>)
        else ((404, json_error ''Order not found or not cancellable''), w))"

subsection \<open>\<^verbatim>\<open>generate_order_id\<close>\<close>

text \<open>
  \<^verbatim>\<open>secrets.choice(seq)\<close> is \<^verbatim>\<open>seq[randbelow(len(seq))]\<close>. The random source is
  the function \<open>rnd\<close>: \<open>rnd i\<close> is what \<^verbatim>\<open>randbelow(36)\<close> returned at the
  \<open>i\<close>-th of the six draws, a number below 36.
\<close>

definition alphabet :: string where
  "alphabet = ''ABCDEFGHIJKLMNOPQRSTUVWXYZ0123456789''"

definition random_part :: "(nat \<Rightarrow> nat) \<Rightarrow> string" where
  "random_part rnd = map (\<lambda>i. alphabet ! rnd i) [0..<6]"

text \<open>The calendar date of \<^verbatim>\<open>datetime.datetime.now()\<close>.\<close>

record date =
  day :: nat
  month :: nat
  year :: nat


text \<open>The decimal numeral of a number, as \<^verbatim>\<open>strftime\<close> prints it.\<close>

definition digit_char :: "nat \<Rightarrow> char" where
  "digit_char n = ''0123456789'' ! n"

fun decimal :: "nat \<Rightarrow> string" where
  "decimal n = (if n < 10 then [digit_char n] else decimal (n div 10) @ [digit_char (n mod 10)])"

declare decimal.simps [simp del]

text \<open>The conversions \<^verbatim>\<open>%d\<close>, \<^verbatim>\<open>%m\<close> and \<^verbatim>\<open>%y\<close>: a decimal number padded with a zero to two digits.\<close>

definition zero_pad2 :: "nat \<Rightarrow> string" where
  "zero_pad2 n = (if n < 10 then CHR ''0'' # decimal n else decimal n)"

definition strftime_dmy :: "date \<Rightarrow> string" where
  "strftime_dmy d = zero_pad2 (day d) @ zero_pad2 (month d) @ zero_pad2 (year d mod 100)"

definition generate_order_id :: "string \<Rightarrow> (nat \<Rightarrow> nat) \<Rightarrow> date \<Rightarrow> string" where
  "generate_order_id prefix rnd today =
     prefix @ ''-'' @ random_part rnd @ ''-'' @ strftime_dmy today"






subsection \<open>\<^verbatim>\<open>validate_ipn\<close> and \<^verbatim>\<open>ipn\<close>\<close>

text \<open>
  The request as the view functions read it: the header \<^verbatim>\<open>x-nowpayments-sig\<close>
  (\<^verbatim>\<open>headers.get\<close> gives \<^verbatim>\<open>None\<close> when it is absent), the raw body, and the
  outcome of \<^verbatim>\<open>request.get_json()\<close>, which raises on a body that does not parse.
\<close>

record request =
  sig_header :: "string option"
  get_data :: string
  get_json :: "error + json"

definition is_ascii :: "string \<Rightarrow> bool" where
  "is_ascii s = list_all (\<lambda>c. (of_char c :: nat) < 128) s"

text \<open>
  \<^verbatim>\<open>hmac.compare_digest(a, b)\<close> with \<open>b\<close> a string: it raises \<^verbatim>\<open>TypeError\<close>
  unless \<open>a\<close> is a string too and both hold ASCII characters only.
\<close>

definition compare_digest :: "string option \<Rightarrow> string \<Rightarrow> error + bool" where
  "compare_digest a b =
     (case a of
        None \<Rightarrow> Inl TypeError
      | Some s \<Rightarrow> if is_ascii s \<and> is_ascii b then Inr (s = b) else Inl TypeError)"

text \<open>
  \<^verbatim>\<open>NOWPAYMENTS_IPN_SECRET.encode()\<close> raises \<^verbatim>\<open>AttributeError\<close> when the
  variable is not set. SHA-512 is not unfolded: the keyed digest is the parameter
  \<open>hmac_sha512_hex\<close> of the environment.
\<close>

definition validate_ipn :: "env \<Rightarrow> request \<Rightarrow> error + bool" where
  "validate_ipn e r =
     (case NOWPAYMENTS_IPN_SECRET e of
        None \<Rightarrow> Inl AttributeError
      | Some k \<Rightarrow> compare_digest (sig_header r) (hmac_sha512_hex e k (get_data r)))"

text \<open>
  The parameter \<^verbatim>\<open>order_id\<close> of the two statements of \<^verbatim>\<open>ipn\<close>. A string is
  compared with the column as it is; how another JSON value is read is left to the
  environment.
\<close>

definition order_id_arg :: "env \<Rightarrow> json \<Rightarrow> string sql_arg" where
  "order_id_arg e v = (case v of JStr s \<Rightarrow> SqlKey s | _ \<Rightarrow> adapt_order_id e v)"

text \<open>
  \<^verbatim>\<open>UPDATE orders SET order_status = 'paid', paid_at = CURRENT_TIMESTAMP WHERE
  order_id = %s\<close> and \<^verbatim>\<open>SELECT user_identifier FROM orders WHERE order_id = %s\<close>
  with \<^verbatim>\<open>fetchone\<close>: \<open>None\<close> when no row is selected, otherwise the one-column
  row, whose column may be \<^verbatim>\<open>NULL\<close>.
\<close>

definition update_paid :: "timestamp \<Rightarrow> string \<Rightarrow> order list \<Rightarrow> order list" where
  "update_paid now oid rs =
     map (\<lambda>r. if order_id r = oid then r\<lparr>order_status := ''paid'', paid_at := Some now\<rparr> else r) rs"

definition select_user_identifier :: "string \<Rightarrow> order list \<Rightarrow> string option option" where
  "select_user_identifier oid rs =
     (case filter (\<lambda>r. order_id r = oid) rs of [] \<Rightarrow> None | r # _ \<Rightarrow> Some (user_identifier r))"

text \<open>The message with the two buttons; \<open>v\<close> is the value of \<^verbatim>\<open>data['order_id']\<close>.\<close>

definition delivery_choice :: "string option \<Rightarrow> json \<Rightarrow> tg_message" where
  "delivery_choice uid v =
     \<lparr>chat_id = uid,
      msg_text = [Lit ''Payment received! Choose delivery method:''],
      keyboard = [(''Telegram'', [Lit ''delivery_telegram_'', Val v]),
                  (''Email'', [Lit ''delivery_email_'', Val v])]\<rparr>"

text \<open>
  The view function. \<open>now\<close> is \<^verbatim>\<open>CURRENT_TIMESTAMP\<close>. \<^verbatim>\<open>if user_id:\<close> tests the
  fetched row, a one-element tuple, which is true whenever a row was fetched. The
  transaction is committed before the message is sent, so a send that raises leaves the
  update in place.
\<close>

definition ipn :: "env \<Rightarrow> timestamp \<Rightarrow> request \<Rightarrow> world \<Rightarrow> (error + response) \<times> world" where
  "ipn e now r w =
     (case validate_ipn e r of
        Inl x \<Rightarrow> (Inl x, w)
      | Inr valid \<Rightarrow>
          if \<not> valid then (Inr (400, Text ''Invalid signature''), w)
          else
            (case get_json r of
               Inl x \<Rightarrow> (Inl x, w)
             | Inr data \<Rightarrow>
                 (case py_get data ''payment_status'' of
                    Inl x \<Rightarrow> (Inl x, w)
                  | Inr status \<Rightarrow>
                      if status = JStr ''finished'' then
                        (case py_getitem data ''order_id'' of
                           Inl x \<Rightarrow> (Inl x, w)
                         | Inr v \<Rightarrow>
                             if \<not> db_ok e then (Inl DbError, w)
                             else
                               (case order_id_arg e v of
                                  SqlError \<Rightarrow> (Inl DbError, w)
                                | SqlNoMatch \<Rightarrow> (Inr (200, Text ''OK''), w)
                                | SqlKey oid \<Rightarrow>
                                    (let w1 = w\<lparr>orders := update_paid now oid (orders w)\<rparr> in
                                     case select_user_identifier oid (orders w1) of
                                       None \<Rightarrow> (Inr (200, Text ''OK''), w1)
                                     | Some uid \<Rightarrow>
                                         (let m = delivery_choice uid v;
                                              w2 = w1\<lparr>sent := sent w1 @ [m]\<rparr>
                                          in if telegram_send e m then (Inr (200, Text ''OK''), w2)
                                             else (Inl TelegramError, w2)))))
                      else (Inr (200, Text ''OK''), w))))"

subsection \<open>\<^verbatim>\<open>create_invoice\<close> and \<^verbatim>\<open>create_order\<close>\<close>

text \<open>
  \<^verbatim>\<open>create_invoice\<close> posts to the invoice service and returns
  \<^verbatim>\<open>response.json()\<close>. The call and the parsing of its answer are the parameter
  \<open>invoice_post\<close>: \<open>Inl\<close> when either raises, otherwise the parsed value.
\<close>

definition create_invoice :: "env \<Rightarrow> real \<Rightarrow> string \<Rightarrow> string \<Rightarrow> error + json" where
  "create_invoice e amount oid coin = invoice_post e amount oid coin"

text \<open>
  \<^verbatim>\<open>SELECT price FROM products WHERE id = %s\<close> with \<^verbatim>\<open>fetchone\<close>. The parameter
  is the JSON value of the request; how it is compared with the integer column is the
  parameter \<open>adapt_product_id\<close>. The result carries the key of the selected row beside
  its price.
\<close>

definition select_price :: "env \<Rightarrow> product list \<Rightarrow> json \<Rightarrow> error + (int \<times> real) option" where
  "select_price e ps v =
     (case adapt_product_id e v of
        SqlError \<Rightarrow> Inl DbError
      | SqlNoMatch \<Rightarrow> Inr None
      | SqlKey k \<Rightarrow>
          Inr (case filter (\<lambda>p. id_col p = k) ps of [] \<Rightarrow> None | p # _ \<Rightarrow> Some (k, price p)))"

text \<open>
  Modelled from the spec: the declaration of the table \<^verbatim>\<open>orders\<close> is not in the
  sources, and the \<^verbatim>\<open>INSERT\<close> of \<^verbatim>\<open>create_order\<close> names only four columns. The
  specification gives a new order the status \<^verbatim>\<open>pending\<close>, no buyer identifier for a
  web order, and no payment time; the creation time is the time of the insertion.
\<close>

definition default_order_status :: string where
  "default_order_status = ''pending''"

definition insert_web_order :: "timestamp \<Rightarrow> int \<Rightarrow> real \<Rightarrow> string \<Rightarrow> order" where
  "insert_web_order now k amount oid =
     \<lparr>product_id = k, total_amount = amount, user_identifier = None, order_id = oid,
      payment_id = [], order_status = default_order_status, created_at = now,
      paid_at = None\<rparr>"

text \<open>
  The view function. Every exception is caught by its \<^verbatim>\<open>except Exception\<close> and
  answered with 500; the order row is inserted and committed before
  \<^verbatim>\<open>create_invoice\<close> is called. \<^verbatim>\<open>if not product\<close> tests the fetched row, a
  one-element tuple.
\<close>

definition create_order ::
  "env \<Rightarrow> (nat \<Rightarrow> nat) \<Rightarrow> date \<Rightarrow> timestamp \<Rightarrow> request \<Rightarrow> world \<Rightarrow> response \<times> world" where
  "create_order e rnd today now r w =
     (case get_json r of
        Inl x \<Rightarrow> ((500, json_error ''Internal server error''), w)
      | Inr data \<Rightarrow>
          if \<not> truthy data then ((400, json_error ''Missing product_id''), w)
          else
            (case py_in ''product_id'' data of
               Inl x \<Rightarrow> ((500, json_error ''Internal server error''), w)
             | Inr present \<Rightarrow>
                 if \<not> present then ((400, json_error ''Missing product_id''), w)
                 else
                   (case py_getitem data ''product_id'' of
                      Inl x \<Rightarrow> ((500, json_error ''Internal server error''), w)
                    | Inr v \<Rightarrow>
                        (let oid = generate_order_id ''W'' rnd today in
                         if \<not> db_ok e then ((500, json_error ''Internal server error''), w)
                         else
                           (case select_price e (products w) v of
                              Inl x \<Rightarrow> ((500, json_error ''Internal server error''), w)
                            | Inr None \<Rightarrow> ((404, json_error ''Product not found''), w)
                            | Inr (Some (k, amount)) \<Rightarrow>
                                (let w1 = w\<lparr>orders := orders w @ [insert_web_order now k amount oid]\<rparr> in
                                 case create_invoice e amount oid ''BTC'' of
                                   Inl x \<Rightarrow> ((500, json_error ''Internal server error''), w1)
                                 | Inr invoice \<Rightarrow>
                                     if \<not> truthy invoice
                                     then ((500, json_error ''Failed to create invoice''), w1)
                                     else
                                       (case py_in ''invoice_url'' invoice of
                                          Inl x \<Rightarrow> ((500, json_error ''Internal server error''), w1)
                                        | Inr has_url \<Rightarrow>
                                            if \<not> has_url
                                            then ((500, json_error ''Failed to create invoice''), w1)
                                            else
                                              (case py_get invoice ''invoice_url'' of
                                                 Inl x \<Rightarrow> ((500, json_error ''Internal server error''), w1)
                                               | Inr url \<Rightarrow>
                                                   ((200, Json (JObj [(''order_id'', JStr oid),
                                                                      (''payment_url'', url)])), w1)))))))))"

text \<open>
  Invoice creation fails when the call to the service raises, or when its answer is not
  an object with the field \<^verbatim>\<open>invoice_url\<close>.
\<close>

definition invoice_failed :: "error + json \<Rightarrow> bool" where
  "invoice_failed res =
     (case res of
        Inl x \<Rightarrow> True
      | Inr (JObj kvs) \<Rightarrow> map_of kvs ''invoice_url'' = None
      | Inr _ \<Rightarrow> True)"

subsection \<open>\<^verbatim>\<open>submit_delivery\<close>\<close>

text \<open>
  The three fields are read with \<^verbatim>\<open>data[...]\<close>, in this order; a missing one raises
  \<^verbatim>\<open>KeyError\<close>, which the \<^verbatim>\<open>except Exception\<close> answers with 500, as it does a send
  that raises.
\<close>

definition admin_message :: "env \<Rightarrow> json \<Rightarrow> json \<Rightarrow> json \<Rightarrow> tg_message" where
  "admin_message e a b c =
     \<lparr>chat_id = ADMIN_CHAT_ID e,
      msg_text = [Lit ''New Order: '', Val a, Lit [CHR 0x0A], Lit ''Delivery: '', Val b,
                  Lit '' ('', Val c, Lit '')''],
      keyboard = []\<rparr>"

definition submit_delivery :: "env \<Rightarrow> request \<Rightarrow> world \<Rightarrow> response \<times> world" where
  "submit_delivery e r w =
     (case get_json r of
        Inl x \<Rightarrow> ((500, json_error ''Internal server error''), w)
      | Inr data \<Rightarrow>
          (case py_getitem data ''order_id'' of
             Inl x \<Rightarrow> ((500, json_error ''Internal server error''), w)
           | Inr a \<Rightarrow>
               (case py_getitem data ''method'' of
                  Inl x \<Rightarrow> ((500, json_error ''Internal server error''), w)
                | Inr b \<Rightarrow>
                    (case py_getitem data ''details'' of
                       Inl x \<Rightarrow> ((500, json_error ''Internal server error''), w)
                     | Inr c \<Rightarrow>
                         (let m = admin_message e a b c;
                              w1 = w\<lparr>sent := sent w @ [m]\<rparr>
                          in if telegram_send e m then ((200, json_success), w1)
                             else ((500, json_error ''Internal server error''), w1))))))"

subsection \<open>\<^verbatim>\<open>ProductForm\<close> and \<^verbatim>\<open>add_product\<close>\<close>

text \<open>
  The submitted form as WTForms holds it after processing: the request method, whether
  the CSRF token of the form validates, and the \<^verbatim>\<open>data\<close> of each field. The data of
  a text field is \<open>None\<close> when the field was not sent. The data of the \<^verbatim>\<open>FloatField\<close>
  is what \<^verbatim>\<open>float\<close> made of the input, \<open>None\<close> when the input was absent or did not
  parse; the number is a real, so the values that are not numbers are left out.
\<close>

record product_form =
  form_method :: string
  csrf_ok :: bool
  name_data :: "string option"
  price_data :: "real option"
  description_data :: "string option"
  image_url_data :: "string option"

text \<open>
  The validators, as the WTForms library defines them. \<^verbatim>\<open>DataRequired\<close> accepts a
  field when \<^verbatim>\<open>field.data\<close> is true and, for a string, \<^verbatim>\<open>field.data.strip()\<close> is
  not empty; \<^verbatim>\<open>NumberRange(min=0)\<close> accepts data that is present and not below 0.
  A character is a code point below 256; the whitespace that \<^verbatim>\<open>strip\<close> removes
  there is U+0009 to U+000D, U+001C to U+0020, U+0085 and U+00A0.
\<close>

definition is_space :: "char \<Rightarrow> bool" where
  "is_space c =
     ((9 \<le> (of_char c :: nat) \<and> (of_char c :: nat) \<le> 13)
      \<or> (28 \<le> (of_char c :: nat) \<and> (of_char c :: nat) \<le> 32)
      \<or> (of_char c :: nat) = 133
      \<or> (of_char c :: nat) = 160)"

definition data_required_str :: "string option \<Rightarrow> bool" where
  "data_required_str d = (case d of None \<Rightarrow> False | Some s \<Rightarrow> s \<noteq> [] \<and> \<not> list_all is_space s)"

definition data_required_num :: "real option \<Rightarrow> bool" where
  "data_required_num d = (case d of None \<Rightarrow> False | Some x \<Rightarrow> x \<noteq> 0)"

definition number_range_min0 :: "real option \<Rightarrow> bool" where
  "number_range_min0 d = (case d of None \<Rightarrow> False | Some x \<Rightarrow> 0 \<le> x)"

text \<open>
  \<^verbatim>\<open>form.validate_on_submit()\<close>: the request is a submission and every field passes
  its validators, in the order the class \<^verbatim>\<open>ProductForm\<close> lists them.
\<close>

definition validate_on_submit :: "product_form \<Rightarrow> bool" where
  "validate_on_submit f =
     (form_method f \<in> set [''POST'', ''PUT'', ''PATCH'', ''DELETE'']
      \<and> csrf_ok f
      \<and> data_required_str (name_data f)
      \<and> (data_required_num (price_data f) \<and> number_range_min0 (price_data f))
      \<and> data_required_str (description_data f))"

text \<open>
  The view function; \<open>new_id\<close> is the key the storage gives the inserted row. A
  form that validated has data in the three required fields; an \<^verbatim>\<open>INSERT\<close> without
  them is a storage error, caught like any other.
\<close>

definition add_product :: "env \<Rightarrow> int \<Rightarrow> product_form \<Rightarrow> world \<Rightarrow> response \<times> world" where
  "add_product e new_id f w =
     (if validate_on_submit f then
        (case (db_ok e, name_data f, price_data f, description_data f) of
           (True, Some n, Some p, Some d) \<Rightarrow>
             ((302, Redirect ''admin_panel''),
              w\<lparr>products := products w @
                   [\<lparr>id_col = new_id, name = n, price = p, description = d,
                     image_url = image_url_data f\<rparr>],
                flashed := flashed w @ [''Product added successfully'']\<rparr>)
         | _ \<Rightarrow>
             ((200, Html ''add_product.html''),
              w\<lparr>flashed := flashed w @ [''Error adding product'']\<rparr>))
      else ((200, Html ''add_product.html''), w))"

subsection \<open>Example environment, states and requests\<close>

text \<open>
  Concrete inputs on which the properties below are evaluated. In \<open>demo_env\<close> the
  secret is set, the keyed digest of a body is the key followed by the body, the storage
  answers, every Telegram send returns, and the call to the invoice service raises.
\<close>

definition demo_env :: env where
  "demo_env =
     \<lparr>NOWPAYMENTS_IPN_SECRET = Some ''k3y'',
      ADMIN_CHAT_ID = Some ''1000'',
      hmac_sha512_hex = (\<lambda>k b. k @ b),
      invoice_post = (\<lambda>amount oid coin. Inl RequestError),
      telegram_send = (\<lambda>m. True),
      db_ok = True,
      adapt_product_id =
        (\<lambda>v. case v of JNum x \<Rightarrow> SqlKey \<lfloor>x\<rfloor> | JNull \<Rightarrow> SqlNoMatch | _ \<Rightarrow> SqlError),
      adapt_order_id = (\<lambda>v. case v of JNull \<Rightarrow> SqlNoMatch | _ \<Rightarrow> SqlError)\<rparr>"

definition demo_order :: "string \<Rightarrow> string option \<Rightarrow> string \<Rightarrow> order" where
  "demo_order oid uid status =
     \<lparr>product_id = 1, total_amount = 5, user_identifier = uid, order_id = oid,
      payment_id = [], order_status = status, created_at = 10, paid_at = None\<rparr>"

definition demo_world :: "order list \<Rightarrow> world" where
  "demo_world rs =
     \<lparr>products = [\<lparr>id_col = 1, name = ''Widget'', price = 5, description = ''A widget'',
                   image_url = None\<rparr>],
      orders = rs, sent = [], flashed = []\<rparr>"

text \<open>A notification with a valid signature for \<open>demo_env\<close> that reports \<^verbatim>\<open>finished\<close>.\<close>

definition finished_ipn :: "string \<Rightarrow> request" where
  "finished_ipn oid =
     \<lparr>sig_header = Some (''k3y'' @ ''body''), get_data = ''body'',
      get_json = Inr (JObj [(''payment_status'', JStr ''finished''), (''order_id'', JStr oid)])\<rparr>"

text \<open>A request whose JSON body is the object with the given items, and a date.\<close>

definition json_request :: "(string \<times> json) list \<Rightarrow> request" where
  "json_request kvs = \<lparr>sig_header = None, get_data = [], get_json = Inr (JObj kvs)\<rparr>"

definition demo_date :: date where
  "demo_date = \<lparr>day = 1, month = 1, year = 2025\<rparr>"

text \<open>A submission of the product form that is complete, with the given price.\<close>

definition demo_form :: "real \<Rightarrow> product_form" where
  "demo_form x =
     \<lparr>form_method = ''POST'', csrf_ok = True, name_data = Some ''Sample'',
      price_data = Some x, description_data = Some ''A sample'', image_url_data = Some []\<rparr>"

section \<open>Properties\<close>

subsection \<open>Cancelling an order\<close>

text \<open>
  Claim C4. With the storage answering, \<^verbatim>\<open>POST /cancel-order/<id>\<close> answers 200 with
  \<^verbatim>\<open>{success: true}\<close> exactly when some stored order has that identifier and the
  status \<^verbatim>\<open>pending\<close>. In that case every such order gets the status
  \<^verbatim>\<open>cancelled\<close>, every other row stays as it was, and nothing else changes. When no
  order has that identifier, or the ones that have it are \<^verbatim>\<open>paid\<close> or
  \<^verbatim>\<open>cancelled\<close>, the answer is 404 and the state is the one before.
\<close>

theorem cancel_order_pending_only:
  assumes "db_ok e"
  shows "(fst (cancel_order e oid w) = (200, json_success))
           = (\<exists>r \<in> set (orders w). order_id r = oid \<and> order_status r = ''pending'')
       \<and> (if \<exists>r \<in> set (orders w). order_id r = oid \<and> order_status r = ''pending''
          then list_all2 (\<lambda>r r'. r' = (if order_id r = oid \<and> order_status r = ''pending''
                                         then r\<lparr>order_status := ''cancelled''\<rparr> else r))
                 (orders w) (orders (snd (cancel_order e oid w)))
               \<and> products (snd (cancel_order e oid w)) = products w
               \<and> sent (snd (cancel_order e oid w)) = sent w
          else cancel_order e oid w = ((404, json_error ''Order not found or not cancellable''), w))"
  using assms
  by (auto simp: cancel_order_def rowcount_cancelled_def update_cancelled_def cancellable_def
      json_success_def json_error_def list_all2_map2 filter_empty_conv list.rel_refl)

theorem cancel_order_pending_only_witness:
  "db_ok demo_env
   \<and> fst (cancel_order demo_env ''W-AAAAAA-010125''
            (demo_world [demo_order ''W-AAAAAA-010125'' None ''pending''])) = (200, json_success)
   \<and> map order_status
        (orders (snd (cancel_order demo_env ''W-AAAAAA-010125''
                        (demo_world [demo_order ''W-AAAAAA-010125'' None ''pending''])))) = [''cancelled'']
   \<and> cancel_order demo_env ''W-AAAAAA-010125''
        (demo_world [demo_order ''W-AAAAAA-010125'' None ''paid''])
       = ((404, json_error ''Order not found or not cancellable''),
          demo_world [demo_order ''W-AAAAAA-010125'' None ''paid''])"
  using cancel_order_pending_only [of demo_env "''W-AAAAAA-010125''"
      "demo_world [demo_order ''W-AAAAAA-010125'' None ''pending'']"]
    cancel_order_pending_only [of demo_env "''W-AAAAAA-010125''"
      "demo_world [demo_order ''W-AAAAAA-010125'' None ''paid'']"]
  by (simp add: demo_env_def demo_world_def demo_order_def cancel_order_def
      rowcount_cancelled_def update_cancelled_def cancellable_def)

subsection \<open>The payment notification: signature check\<close>

text \<open>
  Claim C9. A request to \<^verbatim>\<open>/ipn\<close> without the header \<^verbatim>\<open>x-nowpayments-sig\<close>, with
  the secret configured: \<^verbatim>\<open>compare_digest\<close> receives \<^verbatim>\<open>None\<close> and raises
  \<^verbatim>\<open>TypeError\<close>, which leaves the view function; the answer is not the 400 of an
  invalid signature. This holds for every body, clock and state, which stays as it was.
\<close>

theorem ipn_missing_signature_raises:
  "ipn (e\<lparr>NOWPAYMENTS_IPN_SECRET := Some k\<rparr>) now (r\<lparr>sig_header := None\<rparr>) w = (Inl TypeError, w)"
  by (simp add: ipn_def validate_ipn_def compare_digest_def)

text \<open>
  Claim C3, at the request on which the code departs from it: a notification for a stored
  pending order whose signature header is absent. The claim asks for the answer 400;
  the view function ends with an uncaught \<^verbatim>\<open>TypeError\<close>. The state is unchanged.
\<close>

theorem ipn_unsigned_request_not_400:
  "ipn demo_env 100 ((finished_ipn ''W-AAAAAA-010125'')\<lparr>sig_header := None\<rparr>)
       (demo_world [demo_order ''W-AAAAAA-010125'' None ''pending''])
     = (Inl TypeError, demo_world [demo_order ''W-AAAAAA-010125'' None ''pending''])"
  by (simp add: ipn_def validate_ipn_def compare_digest_def demo_env_def)

text \<open>
  What the signature check does guarantee: whenever it does not return \<^verbatim>\<open>True\<close>,
  by answering \<^verbatim>\<open>False\<close> or by raising, the state is the one before; and a header
  that is present, holds ASCII characters only and differs from the digest is answered
  400.
\<close>

lemma ipn_rejected_signature_keeps_state:
  "validate_ipn e r \<noteq> Inr True \<Longrightarrow> snd (ipn e now r w) = w"
  by (auto simp add: ipn_def split: sum.splits)

lemma ipn_wrong_signature_400:
  assumes "NOWPAYMENTS_IPN_SECRET e = Some k"
    and "sig_header r = Some s"
    and "is_ascii s"
    and "is_ascii (hmac_sha512_hex e k (get_data r))"
    and "s \<noteq> hmac_sha512_hex e k (get_data r)"
  shows "ipn e now r w = (Inr (400, Text ''Invalid signature''), w)"
  using assms by (simp add: ipn_def validate_ipn_def compare_digest_def)

subsection \<open>The payment notification: replay\<close>

text \<open>
  Claim C2, at the input on which the code departs from it: the same valid
  \<^verbatim>\<open>finished\<close> notification for a pending order of buyer 42, delivered at time 100
  and again at time 200. The second delivery overwrites the payment time and reaches the
  buyer with a second message; the claim asks for neither.
\<close>

theorem ipn_replay_notifies_twice:
  "(let w0 = demo_world [demo_order ''B-AAAAAA-010125'' (Some ''42'') ''pending''];
        w1 = snd (ipn demo_env 100 (finished_ipn ''B-AAAAAA-010125'') w0);
        w2 = snd (ipn demo_env 200 (finished_ipn ''B-AAAAAA-010125'') w1)
    in map order_status (orders w1) = [''paid''] \<and> map order_status (orders w2) = [''paid'']
       \<and> map paid_at (orders w1) = [Some 100] \<and> map paid_at (orders w2) = [Some 200]
       \<and> sent w1 = [delivery_choice (Some ''42'') (JStr ''B-AAAAAA-010125'')]
       \<and> sent w2 = [delivery_choice (Some ''42'') (JStr ''B-AAAAAA-010125''),
                     delivery_choice (Some ''42'') (JStr ''B-AAAAAA-010125'')])"
  by (simp add: Let_def ipn_def validate_ipn_def compare_digest_def is_ascii_def demo_env_def
      demo_world_def demo_order_def finished_ipn_def order_id_arg_def update_paid_def
      select_user_identifier_def)

subsection \<open>The payment notification: marking an order paid\<close>

lemma filter_update_paid:
  "filter (\<lambda>x. order_id x = oid) (update_paid now oid rs)
     = map (\<lambda>x. x\<lparr>order_status := ''paid'', paid_at := Some now\<rparr>)
         (filter (\<lambda>x. order_id x = oid) rs)"
  by (induction rs) (simp_all add: update_paid_def)

lemma transitions_update_paid:
  "length (filter (\<lambda>(x, x'). order_status x = ''pending'' \<and> order_status x' = ''paid'')
             (zip rs (update_paid now oid rs)))
     = length (filter (\<lambda>x. order_status x = ''pending'') (filter (\<lambda>x. order_id x = oid) rs))"
  by (induction rs) (simp_all add: update_paid_def)

lemma list_all2_update_paid:
  "list_all2 (\<lambda>x x'. x' = (if order_id x = oid
                              then x\<lparr>order_status := ''paid'', paid_at := Some now\<rparr> else x))
     rs (update_paid now oid rs)"
  by (simp add: update_paid_def list_all2_map2 list.rel_refl)

lemma update_paid_no_match:
  "filter (\<lambda>x. order_id x = oid) rs = [] \<Longrightarrow> update_paid now oid rs = rs"
  by (induction rs) (simp_all add: update_paid_def split: if_splits)

text \<open>
  Claim C1, at the input on which the code departs from it: a valid \<^verbatim>\<open>finished\<close>
  notification that names a stored order of buyer 42 whose status is \<^verbatim>\<open>cancelled\<close>.
  The claim has the transition to \<^verbatim>\<open>paid\<close> start from \<^verbatim>\<open>pending\<close> only, never
  from \<^verbatim>\<open>cancelled\<close>; the statement \<^verbatim>\<open>UPDATE\<close> of the view function does not
  test the status, so the cancelled order is set to \<^verbatim>\<open>paid\<close>, its payment time is
  stamped and its buyer is sent the delivery choice.
\<close>

theorem ipn_cancelled_order_marked_paid:
  "(let w0 = demo_world [demo_order ''B-AAAAAA-010125'' (Some ''42'') ''cancelled''];
        res = ipn demo_env 100 (finished_ipn ''B-AAAAAA-010125'') w0
    in map order_status (orders w0) = [''cancelled'']
       \<and> fst res = Inr (200, Text ''OK'')
       \<and> map order_status (orders (snd res)) = [''paid'']
       \<and> map paid_at (orders (snd res)) = [Some 100]
       \<and> sent (snd res) = [delivery_choice (Some ''42'') (JStr ''B-AAAAAA-010125'')])"
  by (simp add: Let_def ipn_def validate_ipn_def compare_digest_def is_ascii_def demo_env_def
      demo_world_def demo_order_def finished_ipn_def order_id_arg_def update_paid_def
      select_user_identifier_def)

text \<open>
  What the view function does for a notification with a valid signature that reports
  \<^verbatim>\<open>finished\<close> and carries a string \<^verbatim>\<open>order_id\<close>, the storage answering. When no
  stored order has that identifier, the answer is \<^verbatim>\<open>OK\<close> and the state is the one
  before.
\<close>

lemma ipn_finished_unknown_order:
  assumes secret: "NOWPAYMENTS_IPN_SECRET e = Some k"
    and sig: "sig_header r = Some (hmac_sha512_hex e k (get_data r))"
    and ascii: "is_ascii (hmac_sha512_hex e k (get_data r))"
    and body: "get_json r = Inr (JObj kvs)"
    and finished: "map_of kvs ''payment_status'' = Some (JStr ''finished'')"
    and oid: "map_of kvs ''order_id'' = Some (JStr oid)"
    and db: "db_ok e"
    and none: "filter (\<lambda>x. order_id x = oid) (orders w) = []"
  shows "ipn e now r w = (Inr (200, Text ''OK''), w)"
proof -
  have valid: "validate_ipn e r = Inr True"
    using secret sig ascii by (simp add: validate_ipn_def compare_digest_def)
  have same: "update_paid now oid (orders w) = orders w"
    using none by (rule update_paid_no_match)
  have sel: "select_user_identifier oid (orders w) = None"
    using none by (simp add: select_user_identifier_def)
  show ?thesis
    using valid body finished oid db same sel
    by (simp add: ipn_def order_id_arg_def Let_def)
qed

text \<open>
  When exactly one stored order has that identifier and its status is \<^verbatim>\<open>pending\<close>,
  the view function sets that order to \<^verbatim>\<open>paid\<close> with the current time as payment
  time and leaves every other row as it was; exactly one order goes from
  \<^verbatim>\<open>pending\<close> to \<^verbatim>\<open>paid\<close>; the products are untouched; and when that order has
  a buyer identifier, exactly one delivery-choice message is sent, to that buyer, and the
  answer is \<^verbatim>\<open>OK\<close> when the send returns (the exception of the send leaves the view
  function otherwise, after the commit).
\<close>

lemma ipn_finished_marks_pending_order_paid:
  assumes secret: "NOWPAYMENTS_IPN_SECRET e = Some k"
    and sig: "sig_header r = Some (hmac_sha512_hex e k (get_data r))"
    and ascii: "is_ascii (hmac_sha512_hex e k (get_data r))"
    and body: "get_json r = Inr (JObj kvs)"
    and finished: "map_of kvs ''payment_status'' = Some (JStr ''finished'')"
    and oid: "map_of kvs ''order_id'' = Some (JStr oid)"
    and db: "db_ok e"
    and row: "filter (\<lambda>x. order_id x = oid) (orders w) = [row]"
    and pending: "order_status row = ''pending''"
  shows "(let res = ipn e now r w; w' = snd res
          in list_all2 (\<lambda>x x'. x' = (if order_id x = oid
                                       then x\<lparr>order_status := ''paid'', paid_at := Some now\<rparr>
                                       else x))
               (orders w) (orders w')
             \<and> length (filter (\<lambda>(x, x'). order_status x = ''pending'' \<and> order_status x' = ''paid'')
                         (zip (orders w) (orders w'))) = 1
             \<and> products w' = products w
             \<and> (\<forall>b. user_identifier row = Some b \<longrightarrow>
                    sent w' = sent w @ [delivery_choice (Some b) (JStr oid)]
                  \<and> fst res = (if telegram_send e (delivery_choice (Some b) (JStr oid))
                               then Inr (200, Text ''OK'') else Inl TelegramError)))"
proof -
  have valid: "validate_ipn e r = Inr True"
    using secret sig ascii by (simp add: validate_ipn_def compare_digest_def)
  have sel: "select_user_identifier oid (update_paid now oid (orders w)) = Some (user_identifier row)"
    using row by (simp add: select_user_identifier_def filter_update_paid)
  have cnt: "length (filter (\<lambda>(x, x'). order_status x = ''pending'' \<and> order_status x' = ''paid'')
                       (zip (orders w) (update_paid now oid (orders w)))) = 1"
    using row pending by (simp add: transitions_update_paid)
  show ?thesis
    using valid body finished oid db sel cnt list_all2_update_paid [of oid now "orders w"]
    by (simp add: ipn_def order_id_arg_def Let_def)
qed

lemma ipn_finished_marks_pending_order_paid_witness:
  "NOWPAYMENTS_IPN_SECRET demo_env = Some ''k3y''
   \<and> sig_header (finished_ipn ''B-AAAAAA-010125'')
        = Some (hmac_sha512_hex demo_env ''k3y'' (get_data (finished_ipn ''B-AAAAAA-010125'')))
   \<and> is_ascii (hmac_sha512_hex demo_env ''k3y'' (get_data (finished_ipn ''B-AAAAAA-010125'')))
   \<and> db_ok demo_env
   \<and> filter (\<lambda>x. order_id x = ''B-AAAAAA-010125'')
        (orders (demo_world [demo_order ''B-AAAAAA-010125'' (Some ''42'') ''pending'',
                             demo_order ''W-BBBBBB-010125'' None ''pending'']))
       = [demo_order ''B-AAAAAA-010125'' (Some ''42'') ''pending'']
   \<and> order_status (demo_order ''B-AAAAAA-010125'' (Some ''42'') ''pending'') = ''pending''
   \<and> user_identifier (demo_order ''B-AAAAAA-010125'' (Some ''42'') ''pending'') = Some ''42''
   \<and> map order_status
        (orders (snd (ipn demo_env 100 (finished_ipn ''B-AAAAAA-010125'')
           (demo_world [demo_order ''B-AAAAAA-010125'' (Some ''42'') ''pending'',
                        demo_order ''W-BBBBBB-010125'' None ''pending'']))))
       = [''paid'', ''pending'']
   \<and> map paid_at
        (orders (snd (ipn demo_env 100 (finished_ipn ''B-AAAAAA-010125'')
           (demo_world [demo_order ''B-AAAAAA-010125'' (Some ''42'') ''pending'',
                        demo_order ''W-BBBBBB-010125'' None ''pending'']))))
       = [Some 100, None]
   \<and> sent (snd (ipn demo_env 100 (finished_ipn ''B-AAAAAA-010125'')
           (demo_world [demo_order ''B-AAAAAA-010125'' (Some ''42'') ''pending'',
                        demo_order ''W-BBBBBB-010125'' None ''pending''])))
       = [delivery_choice (Some ''42'') (JStr ''B-AAAAAA-010125'')]
   \<and> fst (ipn demo_env 100 (finished_ipn ''B-AAAAAA-010125'')
           (demo_world [demo_order ''B-AAAAAA-010125'' (Some ''42'') ''pending'',
                        demo_order ''W-BBBBBB-010125'' None ''pending'']))
       = Inr (200, Text ''OK'')"
  using ipn_finished_marks_pending_order_paid
     [where e = demo_env and k = "''k3y''" and r = "finished_ipn ''B-AAAAAA-010125''"
      and kvs = "[(''payment_status'', JStr ''finished''), (''order_id'', JStr ''B-AAAAAA-010125'')]"
      and oid = "''B-AAAAAA-010125''" and now = 100
      and w = "demo_world [demo_order ''B-AAAAAA-010125'' (Some ''42'') ''pending'',
                           demo_order ''W-BBBBBB-010125'' None ''pending'']"
      and row = "demo_order ''B-AAAAAA-010125'' (Some ''42'') ''pending''"]
  by (simp add: Let_def ipn_def validate_ipn_def compare_digest_def is_ascii_def demo_env_def
      demo_world_def demo_order_def finished_ipn_def order_id_arg_def update_paid_def
      select_user_identifier_def)

text \<open>
  The test \<^verbatim>\<open>if user_id:\<close> is on the fetched row, not on its column. For a stored
  order without buyer identifier, a web order, the send is issued all the same, with no
  chat to address.
\<close>

lemma ipn_order_without_buyer_send:
  "sent (snd (ipn demo_env 100 (finished_ipn ''W-AAAAAA-010125'')
                (demo_world [demo_order ''W-AAAAAA-010125'' None ''pending''])))
     = [delivery_choice None (JStr ''W-AAAAAA-010125'')]"
  by (simp add: Let_def ipn_def validate_ipn_def compare_digest_def is_ascii_def demo_env_def
      demo_world_def demo_order_def finished_ipn_def order_id_arg_def update_paid_def
      select_user_identifier_def)

subsection \<open>Creating a web order\<close>

text \<open>
  Claim C5. A \<^verbatim>\<open>POST /create-order\<close> whose body is a JSON object with a
  \<^verbatim>\<open>product_id\<close> for which the \<^verbatim>\<open>SELECT\<close> on the products fetches no row, the
  storage answering, is answered 404 with \<^verbatim>\<open>Product not found\<close>, and the state,
  the orders table in it, is the one before: no order row is written.
\<close>

theorem create_order_unknown_product:
  assumes "get_json r = Inr (JObj kvs)"
    and "map_of kvs ''product_id'' = Some v"
    and "db_ok e"
    and "select_price e (products w) v = Inr None"
  shows "create_order e rnd today now r w = ((404, json_error ''Product not found''), w)"
proof -
  have "kvs \<noteq> []" using assms(2) by auto
  then show ?thesis using assms by (simp add: create_order_def Let_def)
qed

theorem create_order_unknown_product_witness:
  "get_json (json_request [(''product_id'', JNum 7)]) = Inr (JObj [(''product_id'', JNum 7)])
   \<and> db_ok demo_env
   \<and> select_price demo_env (products (demo_world [])) (JNum 7) = Inr None
   \<and> create_order demo_env (\<lambda>i. 5 * i) demo_date 50 (json_request [(''product_id'', JNum 7)])
        (demo_world [])
       = ((404, json_error ''Product not found''), demo_world [])"
  using create_order_unknown_product
     [where r = "json_request [(''product_id'', JNum 7)]" and kvs = "[(''product_id'', JNum 7)]"
      and v = "JNum 7" and e = demo_env and w = "demo_world []" and rnd = "\<lambda>i. 5 * i"
      and today = demo_date and now = 50]
  by (simp add: json_request_def demo_env_def demo_world_def select_price_def)

text \<open>
  Claim C10. When the product is found, the order row is appended to the orders table
  before the invoice is requested, with the status \<^verbatim>\<open>pending\<close>, and it is there
  whatever the invoice service does. The answer is 500 exactly when invoice creation
  fails, and 200 otherwise; so an answer 500 after a failed invoice leaves the new
  pending order in storage.
\<close>

theorem create_order_row_survives_invoice_failure:
  assumes "get_json r = Inr (JObj kvs)"
    and "map_of kvs ''product_id'' = Some v"
    and "db_ok e"
    and "select_price e (products w) v = Inr (Some (k, amount))"
  shows "(let oid = generate_order_id ''W'' rnd today;
              res = create_order e rnd today now r w
          in orders (snd res) = orders w @ [insert_web_order now k amount oid]
             \<and> order_id (insert_web_order now k amount oid) = oid
             \<and> order_status (insert_web_order now k amount oid) = ''pending''
             \<and> products (snd res) = products w
             \<and> ((fst (fst res) = 500) = invoice_failed (create_invoice e amount oid ''BTC''))
             \<and> (fst (fst res) = 500 \<or> fst (fst res) = 200))"
proof -
  have ne: "kvs \<noteq> []" using assms(2) by auto
  show ?thesis
  proof (cases "create_invoice e amount (generate_order_id ''W'' rnd today) ''BTC''")
    case (Inl x)
    then show ?thesis using assms ne
      by (simp add: create_order_def Let_def invoice_failed_def insert_web_order_def
          default_order_status_def)
  next
    case (Inr inv)
    then show ?thesis using assms ne
      by (cases inv)
         (auto simp add: create_order_def Let_def invoice_failed_def insert_web_order_def
            default_order_status_def json_error_def)
  qed
qed

theorem create_order_row_survives_invoice_failure_witness:
  "get_json (json_request [(''product_id'', JNum 1)]) = Inr (JObj [(''product_id'', JNum 1)])
   \<and> db_ok demo_env
   \<and> select_price demo_env (products (demo_world [])) (JNum 1) = Inr (Some (1, 5))
   \<and> invoice_failed (create_invoice demo_env 5 ''W-AFKPUZ-010125'' ''BTC'')
   \<and> fst (create_order demo_env (\<lambda>i. 5 * i) demo_date 50
             (json_request [(''product_id'', JNum 1)]) (demo_world []))
       = (500, json_error ''Internal server error'')
   \<and> map (\<lambda>x. (order_id x, order_status x))
        (orders (snd (create_order demo_env (\<lambda>i. 5 * i) demo_date 50
                        (json_request [(''product_id'', JNum 1)]) (demo_world []))))
       = [(''W-AFKPUZ-010125'', ''pending'')]"
  using create_order_row_survives_invoice_failure
     [where r = "json_request [(''product_id'', JNum 1)]" and kvs = "[(''product_id'', JNum 1)]"
      and v = "JNum 1" and e = demo_env and w = "demo_world []" and rnd = "\<lambda>i. 5 * i"
      and today = demo_date and now = 50 and k = 1 and amount = 5]
  by (simp add: json_request_def demo_env_def demo_world_def select_price_def create_order_def
      create_invoice_def invoice_failed_def insert_web_order_def default_order_status_def
      generate_order_id_def random_part_def alphabet_def strftime_dmy_def zero_pad2_def
      decimal.simps digit_char_def demo_date_def upt_rec Let_def)

subsection \<open>Requests with a missing field\<close>

text \<open>
  Claim C7, at the input on which the code departs from it: \<^verbatim>\<open>POST
  /submit-delivery\<close> with a JSON object that holds \<^verbatim>\<open>order_id\<close> and
  \<^verbatim>\<open>method\<close> but no \<^verbatim>\<open>details\<close>. The claim has a missing required field
  answered with a 4xx status; the view function reads the field without testing its
  presence, and the \<^verbatim>\<open>KeyError\<close> is answered 500.
\<close>

theorem submit_delivery_missing_field_500:
  "fst (fst (submit_delivery demo_env
               (json_request [(''order_id'', JStr ''W-AAAAAA-010125''), (''method'', JStr ''email'')])
               (demo_world []))) = 500
   \<and> \<not> (400 \<le> fst (fst (submit_delivery demo_env
               (json_request [(''order_id'', JStr ''W-AAAAAA-010125''), (''method'', JStr ''email'')])
               (demo_world [])))
        \<and> fst (fst (submit_delivery demo_env
               (json_request [(''order_id'', JStr ''W-AAAAAA-010125''), (''method'', JStr ''email'')])
               (demo_world []))) < 500)"
  by (simp add: submit_delivery_def json_request_def)

text \<open>
  The two view functions side by side, for a request whose body is a JSON object.
  \<^verbatim>\<open>create_order\<close> tests the presence of \<^verbatim>\<open>product_id\<close> and answers 400 with
  the JSON body \<^verbatim>\<open>{error: Missing product_id}\<close>; \<^verbatim>\<open>submit_delivery\<close> has no such
  test and answers 500 with \<^verbatim>\<open>{error: Internal server error}\<close> when any one of
  \<^verbatim>\<open>order_id\<close>, \<^verbatim>\<open>method\<close>, \<^verbatim>\<open>details\<close> is absent. Neither changes the state
  or sends a message.
\<close>

lemma missing_field_responses:
  assumes "get_json r = Inr (JObj kvs)"
  shows "(map_of kvs ''product_id'' = None
            \<longrightarrow> create_order e rnd today now r w = ((400, json_error ''Missing product_id''), w))
       \<and> (map_of kvs ''order_id'' = None \<or> map_of kvs ''method'' = None
            \<or> map_of kvs ''details'' = None
            \<longrightarrow> submit_delivery e r w = ((500, json_error ''Internal server error''), w))"
  using assms
  by (auto simp add: create_order_def submit_delivery_def split: option.splits)

lemma missing_field_responses_witness:
  "get_json (json_request [(''order_id'', JStr ''W-AAAAAA-010125''), (''method'', JStr ''email'')])
     = Inr (JObj [(''order_id'', JStr ''W-AAAAAA-010125''), (''method'', JStr ''email'')])
   \<and> map_of [(''order_id'', JStr ''W-AAAAAA-010125''), (''method'', JStr ''email'')] ''product_id'' = None
   \<and> map_of [(''order_id'', JStr ''W-AAAAAA-010125''), (''method'', JStr ''email'')] ''details'' = None
   \<and> create_order demo_env (\<lambda>i. 5 * i) demo_date 50
        (json_request [(''order_id'', JStr ''W-AAAAAA-010125''), (''method'', JStr ''email'')])
        (demo_world [])
       = ((400, json_error ''Missing product_id''), demo_world [])
   \<and> submit_delivery demo_env
        (json_request [(''order_id'', JStr ''W-AAAAAA-010125''), (''method'', JStr ''email'')])
        (demo_world [])
       = ((500, json_error ''Internal server error''), demo_world [])"
  using missing_field_responses
     [where r = "json_request [(''order_id'', JStr ''W-AAAAAA-010125''), (''method'', JStr ''email'')]"
      and kvs = "[(''order_id'', JStr ''W-AAAAAA-010125''), (''method'', JStr ''email'')]"
      and e = demo_env and w = "demo_world []" and rnd = "\<lambda>i. 5 * i"
      and today = demo_date and now = 50]
  by (simp add: json_request_def)

text \<open>
  The catch-all of \<^verbatim>\<open>create_order\<close> answers 500 as well when the body does not
  parse, or is a JSON value that is true but no container, such as the number 5:
  \<^verbatim>\<open>'product_id' not in data\<close> raises \<^verbatim>\<open>TypeError\<close> there.
\<close>

lemma create_order_invalid_body_500:
  "create_order e rnd today now (r\<lparr>get_json := Inl BadRequest\<rparr>) w
     = ((500, json_error ''Internal server error''), w)
   \<and> create_order e rnd today now (r\<lparr>get_json := Inr (JNum 5)\<rparr>) w
     = ((500, json_error ''Internal server error''), w)"
  by (simp add: create_order_def)

subsection \<open>Order identifiers\<close>












subsection \<open>Adding a product\<close>

text \<open>
  What the form accepts: a form that validates has a price above 0, since
  \<^verbatim>\<open>DataRequired\<close> takes the number 0 for missing data.
\<close>

lemma validate_on_submit_positive_price:
  "validate_on_submit f \<Longrightarrow> \<exists>x. price_data f = Some x \<and> 0 < x"
  by (auto simp: validate_on_submit_def data_required_num_def number_range_min0_def
      split: option.splits)

text \<open>
  Claim C8, at the input on which the code departs from it: a complete submission
  (posted, token valid, name and description filled in) with the price 0. The claim has
  it accepted and inserted; the form does not validate, the page is rendered again and
  the products are unchanged. The same submission with the price 1 is accepted.
\<close>

theorem add_product_rejects_zero_price:
  "\<not> validate_on_submit (demo_form 0)
   \<and> add_product demo_env 2 (demo_form 0) (demo_world [])
       = ((200, Html ''add_product.html''), demo_world [])
   \<and> validate_on_submit (demo_form 1)
   \<and> fst (add_product demo_env 2 (demo_form 1) (demo_world [])) = (302, Redirect ''admin_panel'')
   \<and> map id_col (products (snd (add_product demo_env 2 (demo_form 1) (demo_world [])))) = [1, 2]"
  by (simp add: validate_on_submit_def demo_form_def add_product_def data_required_str_def
      data_required_num_def number_range_min0_def is_space_def demo_env_def demo_world_def)

end
